theory Spec2Isabelle
  imports Main "HOL-Library.Sublist" "HOL-Library.Multiset"
begin

section \<open>Qt values used by the sources\<close>

text \<open>
  A \<open>QString\<close> or \<open>QByteArray\<close> is a \<open>string\<close>; a null one and an empty one are
  both \<open>[]\<close>, as Qt's comparison makes them equal. A \<open>QDateTime\<close> is \<open>None\<close> when
  default constructed and otherwise the milliseconds since the epoch. A \<open>qint64\<close>,
  \<open>quint64\<close> or \<open>int\<close> is the integer it holds: no arithmetic is done on the
  values that are stored.
\<close>

type_synonym qdatetime = "int option"

definition startsWith :: "string \<Rightarrow> string \<Rightarrow> bool" where
  \<comment> \<open>\<open>s.startsWith(p)\<close>\<close>
  "startsWith s p = prefix p s"

section \<open>The sync journal (src/libsync/syncjournaldb.cpp)\<close>

subsection \<open>Rows and records\<close>

text \<open>The columns of table \<open>metadata\<close>, in the order of the INSERT of \<open>checkConnect\<close>.\<close>

record metadata_row =
  col_phash :: int
  col_pathlen :: int
  col_path :: string
  col_inode :: int
  col_uid :: int
  col_gid :: int
  col_mode :: int
  col_modtime :: int
  col_type :: int
  col_md5 :: string
  col_fileid :: string
  col_remotePerm :: "string option"
  col_filesize :: int

text \<open>The fields of \<open>SyncJournalFileRecord\<close> that the journal reads and writes.\<close>

record SyncJournalFileRecord =
  path :: string
  inode :: int
  mode :: int
  modtime :: qdatetime
  type :: int
  etag :: string
  fileId :: string
  remotePerm :: string
  fileSize :: int

text \<open>
  The declaration of \<open>SyncJournalFileRecord\<close> is not among the sources; a default
  constructed record, which \<open>getFileRecord\<close> returns when it finds no row, is taken
  with every field empty or zero.
\<close>

definition default_record :: SyncJournalFileRecord where
  "default_record =
     \<lparr>path = [], inode = 0, mode = 0, modtime = None, type = 0, etag = [], fileId = [],
      remotePerm = [], fileSize = 0\<rparr>"

record SyncJournalBlacklistRecord =
  bl_file :: string
  lastTryEtag :: string
  lastTryModtime :: int
  retryCount :: int
  bl_errorString :: string
  lastTryTime :: int
  ignoreDuration :: int

definition default_blacklist_record :: SyncJournalBlacklistRecord where
  \<comment> \<open>a default constructed \<open>SyncJournalBlacklistRecord\<close>\<close>
  "default_blacklist_record =
     \<lparr>bl_file = [], lastTryEtag = [], lastTryModtime = 0, retryCount = 0, bl_errorString = [],
      lastTryTime = 0, ignoreDuration = 0\<rparr>"

subsection \<open>The journal's state\<close>

text \<open>
  The statements the journal executes, named after the member that holds the prepared
  statement or, for a statement local to a function, after the function.
\<close>

datatype sql_stmt =
    SetFileRecordQuery | GetFileRecordQuery | DeleteFileRecordPhash
  | DeleteFileRecordRecursively | GetBlacklistQuery | SetBlacklistQuery
  | WipeBlacklistEntryQuery | AvoidRenamesOnNextSyncQuery | AvoidReadFromDbOnNextSyncQuery
  | OtherQuery

text \<open>
  \<open>transaction\<close> is the member \<open>_transaction\<close>, \<open>db_isOpen\<close> is \<open>_db.isOpen()\<close>,
  \<open>metadata\<close> is table \<open>metadata\<close> keyed by its primary key \<open>phash\<close>,
  \<open>blacklist\<close> is table \<open>blacklist\<close> (its rows in the order a SELECT returns them),
  \<open>avoidReadFromDbOnNextSyncFilter\<close> is the member of that name, and \<open>sql_log\<close> lists
  the statements that were executed on the connection, oldest first.
\<close>

record journal =
  transaction :: int
  possibleUpgradeFromMirall_1_5 :: bool
  db_isOpen :: bool
  metadata :: "int \<rightharpoonup> metadata_row"
  blacklist :: "SyncJournalBlacklistRecord list"
  avoidReadFromDbOnNextSyncFilter :: "string list"
  sql_log :: "sql_stmt list"

text \<open>
  What the journal calls but the sources do not contain: the hash \<open>c_jhash64\<close>, the
  time conversions of \<open>Utility\<close>, the file system probe, the column readers of
  \<open>SqlQuery\<close>, and the outcome of each call into the SQL engine: whether a statement
  executes (\<open>exec_ok\<close>), whether \<open>_db.transaction()\<close> and \<open>_db.commit()\<close>
  succeed, and what \<open>checkConnect\<close> does on a closed connection (\<open>openDb\<close>). That
  path of \<open>checkConnect\<close> opens the file, sets pragmas, creates the tables, migrates
  them and prepares the statements; of the journal's state it assigns the connection,
  \<open>_transaction\<close> and \<open>_possibleUpgradeFromMirall_1_5\<close>, it executes statements, and
  it returns a bool. It writes no row of \<open>metadata\<close> or \<open>blacklist\<close> and does not
  touch the filter, so its outcome is given by the environment as an \<open>open_result\<close>.
\<close>

record open_result =
  opened :: bool
  open_isOpen :: bool
  open_transaction :: int
  open_possibleUpgrade :: bool
  open_log :: "sql_stmt list"

record env =
  c_jhash64 :: "string \<Rightarrow> int"
  qDateTimeToTime_t :: "qdatetime \<Rightarrow> int"
  qDateTimeFromTime_t :: "int \<Rightarrow> qdatetime"
  fsCasePreserving :: bool
  intValue :: "int \<Rightarrow> int"
  int64Value :: "int \<Rightarrow> int"
  exec_ok :: "sql_stmt \<Rightarrow> bool"
  db_transaction :: bool
  db_commit :: bool
  openDb :: open_result

definition SyncJournalDb :: journal where
  \<comment> \<open>the constructor: \<open>_transaction(0), _possibleUpgradeFromMirall_1_5(false)\<close>, no table read yet\<close>
  "SyncJournalDb =
     \<lparr>transaction = 0, possibleUpgradeFromMirall_1_5 = False, db_isOpen = False,
      metadata = Map.empty, blacklist = [], avoidReadFromDbOnNextSyncFilter = [],
      sql_log = []\<rparr>"

subsection \<open>Transactions\<close>

definition startTransaction :: "env \<Rightarrow> journal \<Rightarrow> journal" where
  "startTransaction E s =
     (if transaction s = 0 then
        (if \<not> db_transaction E then s else s\<lparr>transaction := 1\<rparr>)
      else s)"

definition commitTransaction :: "env \<Rightarrow> journal \<Rightarrow> journal" where
  "commitTransaction E s =
     (if transaction s = 1 then
        (if \<not> db_commit E then s else s\<lparr>transaction := 0\<rparr>)
      else s)"

definition commitInternal :: "env \<Rightarrow> bool \<Rightarrow> journal \<Rightarrow> journal" where
  "commitInternal E startTrans s =
     (let s1 = commitTransaction E s in
      if startTrans then startTransaction E s1 else s1)"

definition commit :: "env \<Rightarrow> bool \<Rightarrow> journal \<Rightarrow> journal" where
  "commit E startTrans s = commitInternal E startTrans s"

definition commitIfNeededAndStartNewTransaction :: "env \<Rightarrow> journal \<Rightarrow> journal" where
  "commitIfNeededAndStartNewTransaction E s =
     (if transaction s = 1 then commitInternal E True s else startTransaction E s)"

definition sqlFail :: "env \<Rightarrow> journal \<Rightarrow> bool \<times> journal" where
  \<comment> \<open>commits, closes the connection and returns false\<close>
  "sqlFail E s = (False, (commitTransaction E s)\<lparr>db_isOpen := False\<rparr>)"

definition close :: "env \<Rightarrow> journal \<Rightarrow> journal" where
  "close E s =
     (commitTransaction E s)
       \<lparr>possibleUpgradeFromMirall_1_5 := False, db_isOpen := False,
        avoidReadFromDbOnNextSyncFilter := []\<rparr>"

subsection \<open>Connecting and executing\<close>

definition checkConnect :: "env \<Rightarrow> journal \<Rightarrow> bool \<times> journal" where
  "checkConnect E s =
     (if db_isOpen s then (True, s)
      else (opened (openDb E),
            s\<lparr>db_isOpen := open_isOpen (openDb E),
              transaction := open_transaction (openDb E),
              possibleUpgradeFromMirall_1_5 := open_possibleUpgrade (openDb E),
              sql_log := sql_log s @ open_log (openDb E)\<rparr>))"

definition exec :: "env \<Rightarrow> sql_stmt \<Rightarrow> journal \<Rightarrow> bool \<times> journal" where
  \<comment> \<open>\<open>query.exec()\<close>: the statement reaches the engine, which reports success or failure\<close>
  "exec E q s = (exec_ok E q, s\<lparr>sql_log := sql_log s @ [q]\<rparr>)"

text \<open>
  SQL's \<open>text LIKE pattern\<close> with \<open>PRAGMA case_sensitive_like = ON\<close> and no ESCAPE:
  \<open>%\<close> stands for any run of characters, \<open>_\<close> for any one character.
\<close>

fun sql_like :: "string \<Rightarrow> string \<Rightarrow> bool" where
  "sql_like [] t = (t = [])"
| "sql_like (c # p) [] = (c = CHR ''%'' \<and> sql_like p [])"
| "sql_like (c # p) (d # t) =
     (if c = CHR ''%'' then sql_like p (d # t) \<or> sql_like (c # p) t
      else (c = CHR ''_'' \<or> c = d) \<and> sql_like p t)"

definition getPHash :: "env \<Rightarrow> string \<Rightarrow> int" where
  "getPHash E file = (if file = [] then - 1 else c_jhash64 E file)"

subsection \<open>File records\<close>

text \<open>The loop of \<open>setFileRecord\<close> over the filter, which stops at the first hit.\<close>

fun filter_etag :: "string \<Rightarrow> string list \<Rightarrow> string \<Rightarrow> string" where
  "filter_etag pre [] e = e"
| "filter_etag pre (it # its) e =
     (if startsWith it pre then ''_invalid_'' else filter_etag pre its e)"

definition filtered :: "journal \<Rightarrow> SyncJournalFileRecord \<Rightarrow> SyncJournalFileRecord" where
  "filtered s rec =
     (if avoidReadFromDbOnNextSyncFilter s \<noteq> [] then
        rec\<lparr>etag := filter_etag (path rec @ ''/'') (avoidReadFromDbOnNextSyncFilter s) (etag rec)\<rparr>
      else rec)"

definition bound_row :: "env \<Rightarrow> SyncJournalFileRecord \<Rightarrow> metadata_row" where
  \<comment> \<open>the thirteen values \<open>setFileRecord\<close> binds\<close>
  "bound_row E rec =
     \<lparr>col_phash = getPHash E (path rec),
      col_pathlen = int (length (path rec)),
      col_path = path rec,
      col_inode = inode rec,
      col_uid = 0,
      col_gid = 0,
      col_mode = mode rec,
      col_modtime = qDateTimeToTime_t E (modtime rec),
      col_type = type rec,
      col_md5 = etag rec,
      col_fileid = fileId rec,
      col_remotePerm = (if remotePerm rec = [] then None else Some (remotePerm rec)),
      col_filesize = fileSize rec\<rparr>"

definition setFileRecord :: "env \<Rightarrow> journal \<Rightarrow> SyncJournalFileRecord \<Rightarrow> bool \<times> journal" where
  "setFileRecord E s record0 =
     (let rec = filtered s record0;
          phash = getPHash E (path rec);
          (connected, s1) = checkConnect E s
      in if connected then
           (let (ok, s2) = exec E SetFileRecordQuery s1
            in if \<not> ok then (False, s2)
               else (True, s2\<lparr>metadata := (metadata s2)(phash \<mapsto> bound_row E rec)\<rparr>))
         else (False, s1))"

definition delete_like :: "string \<Rightarrow> (int \<rightharpoonup> metadata_row) \<Rightarrow> (int \<rightharpoonup> metadata_row)" where
  \<comment> \<open>\<open>DELETE FROM metadata WHERE path LIKE(?||'/%')\<close>\<close>
  "delete_like filename m =
     (\<lambda>h. case m h of None \<Rightarrow> None
          | Some row \<Rightarrow> if sql_like (filename @ ''/%'') (col_path row) then None else Some row)"

definition deleteFileRecord :: "env \<Rightarrow> journal \<Rightarrow> string \<Rightarrow> bool \<Rightarrow> bool \<times> journal" where
  "deleteFileRecord E s filename recursively =
     (let (connected, s1) = checkConnect E s
      in if connected then
           (let phash = getPHash E filename;
                (ok, s2) = exec E DeleteFileRecordPhash s1
            in if \<not> ok then (False, s2)
               else
                 (let s3 = s2\<lparr>metadata := (metadata s2)(phash := None)\<rparr>
                  in if recursively then
                       (let (ok2, s4) = exec E DeleteFileRecordRecursively s3
                        in if \<not> ok2 then (False, s4)
                           else (True, s4\<lparr>metadata := delete_like filename (metadata s4)\<rparr>))
                     else (True, s3)))
         else (False, s1))"

definition read_row :: "env \<Rightarrow> metadata_row \<Rightarrow> SyncJournalFileRecord" where
  \<comment> \<open>the columns \<open>getFileRecord\<close> reads, each with the reader the source uses\<close>
  "read_row E row =
     \<lparr>path = col_path row,
      inode = intValue E (col_inode row),
      mode = intValue E (col_mode row),
      modtime = qDateTimeFromTime_t E (int64Value E (col_modtime row)),
      type = intValue E (col_type row),
      etag = col_md5 row,
      fileId = col_fileid row,
      remotePerm = (case col_remotePerm row of None \<Rightarrow> [] | Some p \<Rightarrow> p),
      fileSize = int64Value E (col_filesize row)\<rparr>"

definition getFileRecord :: "env \<Rightarrow> journal \<Rightarrow> string \<Rightarrow> SyncJournalFileRecord \<times> journal" where
  "getFileRecord E s filename =
     (let phash = getPHash E filename;
          rec = default_record;
          (connected, s1) = checkConnect E s
      in if connected then
           (let (ok, s2) = exec E GetFileRecordQuery s1
            in if \<not> ok then (rec, s2)
               else (case metadata s2 phash of
                       Some row \<Rightarrow> (read_row E row, s2)
                     | None \<Rightarrow> (rec, s2)))
         else (rec, s1))"

subsection \<open>The blacklist\<close>

definition ascii_lower :: "char \<Rightarrow> char" where
  "ascii_lower c =
     (if 65 \<le> (of_char c :: nat) \<and> (of_char c :: nat) \<le> 90 then char_of (of_char c + 32 :: nat)
      else c)"

definition path_eq :: "env \<Rightarrow> string \<Rightarrow> string \<Rightarrow> bool" where
  \<comment> \<open>\<open>path=?1\<close>, with \<open>COLLATE NOCASE\<close> when the file system preserves case\<close>
  "path_eq E p file =
     (if fsCasePreserving E then map ascii_lower p = map ascii_lower file else p = file)"

definition blacklistEntry :: "env \<Rightarrow> journal \<Rightarrow> string \<Rightarrow> SyncJournalBlacklistRecord \<times> journal" where
  "blacklistEntry E s file =
     (let entry = default_blacklist_record
      in if file = [] then (entry, s)
         else
           (let (connected, s1) = checkConnect E s
            in if connected then
                 (let (ok, s2) = exec E GetBlacklistQuery s1
                  in if ok then
                       (case find (\<lambda>row. path_eq E (bl_file row) file) (blacklist s2) of
                          Some row \<Rightarrow>
                            (\<lparr>bl_file = file,
                              lastTryEtag = lastTryEtag row,
                              lastTryModtime = int64Value E (lastTryModtime row),
                              retryCount = intValue E (retryCount row),
                              bl_errorString = bl_errorString row,
                              lastTryTime = int64Value E (lastTryTime row),
                              ignoreDuration = int64Value E (ignoreDuration row)\<rparr>, s2)
                        | None \<Rightarrow> (entry, s2))
                     else (entry, s2))
               else (entry, s1)))"

definition wipeBlacklistEntry :: "env \<Rightarrow> journal \<Rightarrow> string \<Rightarrow> journal" where
  "wipeBlacklistEntry E s file =
     (if file = [] then s
      else
        (let (connected, s1) = checkConnect E s
         in if connected then
              (let (ok, s2) = exec E WipeBlacklistEntryQuery s1
               in if \<not> ok then snd (sqlFail E s2)
                  else s2\<lparr>blacklist := filter (\<lambda>row. bl_file row \<noteq> file) (blacklist s2)\<rparr>)
            else s1))"

definition updateBlacklistEntry :: "env \<Rightarrow> journal \<Rightarrow> SyncJournalBlacklistRecord \<Rightarrow> journal" where
  \<comment> \<open>\<open>INSERT OR REPLACE\<close> on the primary key \<open>path\<close>: the old row goes, the new one is added\<close>
  "updateBlacklistEntry E s item =
     (let (connected, s1) = checkConnect E s
      in if \<not> connected then s1
         else
           (let (ok, s2) = exec E SetBlacklistQuery s1
            in if \<not> ok then s2
               else s2\<lparr>blacklist :=
                         filter (\<lambda>row. bl_file row \<noteq> bl_file item) (blacklist s2) @ [item]\<rparr>))"

subsection \<open>Invalidating etags\<close>

definition invalidate_parents :: "string \<Rightarrow> (int \<rightharpoonup> metadata_row) \<Rightarrow> (int \<rightharpoonup> metadata_row)" where
  \<comment> \<open>\<open>UPDATE metadata SET md5='_invalid_' WHERE ?1 LIKE(path||'/%') AND type == 2\<close>\<close>
  "invalidate_parents fileName m =
     (\<lambda>h. case m h of None \<Rightarrow> None
          | Some row \<Rightarrow>
              if sql_like (col_path row @ ''/%'') fileName \<and> col_type row = 2
              then Some (row\<lparr>col_md5 := ''_invalid_''\<rparr>) else Some row)"

definition avoidReadFromDbOnNextSync :: "env \<Rightarrow> journal \<Rightarrow> string \<Rightarrow> journal" where
  "avoidReadFromDbOnNextSync E s fileName =
     (let (connected, s1) = checkConnect E s
      in if \<not> connected then s1
         else
           (let (ok, s2) = exec E AvoidReadFromDbOnNextSyncQuery s1;
                s3 = (if ok then s2\<lparr>metadata := invalidate_parents fileName (metadata s2)\<rparr> else s2)
            in s3\<lparr>avoidReadFromDbOnNextSyncFilter :=
                    avoidReadFromDbOnNextSyncFilter s3 @ [fileName]\<rparr>))"

definition clear_ids :: "string \<Rightarrow> (int \<rightharpoonup> metadata_row) \<Rightarrow> (int \<rightharpoonup> metadata_row)" where
  \<comment> \<open>\<open>UPDATE metadata SET fileid = '', inode = '0' WHERE path == ?1 OR path LIKE(?2||'/%')\<close>\<close>
  "clear_ids p m =
     (\<lambda>h. case m h of None \<Rightarrow> None
          | Some row \<Rightarrow>
              if col_path row = p \<or> sql_like (p @ ''/%'') (col_path row)
              then Some (row\<lparr>col_fileid := [], col_inode := 0\<rparr>) else Some row)"

definition avoidRenamesOnNextSync :: "env \<Rightarrow> journal \<Rightarrow> string \<Rightarrow> journal" where
  "avoidRenamesOnNextSync E s p =
     (let (connected, s1) = checkConnect E s
      in if \<not> connected then s1
         else
           (let (ok, s2) = exec E AvoidRenamesOnNextSyncQuery s1;
                s3 = (if ok then s2\<lparr>metadata := clear_ids p (metadata s2)\<rparr> else s2)
            in avoidReadFromDbOnNextSync E s3 p))"

subsection \<open>Calls on a journal\<close>

text \<open>
  The calls above as data, so that a theorem can speak of any sequence of them. Each call
  comes with the environment's answers during that call. \<open>close\<close> is not among them.
\<close>

datatype journal_call =
    SetFileRecord SyncJournalFileRecord
  | DeleteFileRecord string bool
  | GetFileRecord string
  | BlacklistEntry string
  | WipeBlacklistEntry string
  | UpdateBlacklistEntry SyncJournalBlacklistRecord
  | AvoidRenamesOnNextSync string
  | AvoidReadFromDbOnNextSync string
  | Commit bool
  | CommitIfNeededAndStartNewTransaction

fun call :: "journal \<Rightarrow> env \<times> journal_call \<Rightarrow> journal" where
  "call s (E, SetFileRecord r) = snd (setFileRecord E s r)"
| "call s (E, DeleteFileRecord p b) = snd (deleteFileRecord E s p b)"
| "call s (E, GetFileRecord p) = snd (getFileRecord E s p)"
| "call s (E, BlacklistEntry p) = snd (blacklistEntry E s p)"
| "call s (E, WipeBlacklistEntry p) = wipeBlacklistEntry E s p"
| "call s (E, UpdateBlacklistEntry r) = updateBlacklistEntry E s r"
| "call s (E, AvoidRenamesOnNextSync p) = avoidRenamesOnNextSync E s p"
| "call s (E, AvoidReadFromDbOnNextSync p) = avoidReadFromDbOnNextSync E s p"
| "call s (E, Commit b) = commit E b s"
| "call s (E, CommitIfNeededAndStartNewTransaction) = commitIfNeededAndStartNewTransaction E s"

definition calls :: "journal \<Rightarrow> (env \<times> journal_call) list \<Rightarrow> journal" where
  "calls s cs = foldl call s cs"

subsection \<open>Concrete inputs\<close>

text \<open>
  An environment in which everything succeeds: the hash is the length of the path (it
  separates the paths used below), times are kept in seconds, the readers return what
  was stored.
\<close>

definition env0 :: env where
  "env0 =
     \<lparr>c_jhash64 = (\<lambda>p. int (length p)),
      qDateTimeToTime_t = (\<lambda>t. case t of None \<Rightarrow> 0 | Some ms \<Rightarrow> ms div 1000),
      qDateTimeFromTime_t = (\<lambda>t. Some (t * 1000)),
      fsCasePreserving = False,
      intValue = (\<lambda>v. v),
      int64Value = (\<lambda>v. v),
      exec_ok = (\<lambda>q. True),
      db_transaction = True,
      db_commit = True,
      openDb = \<lparr>opened = True, open_isOpen = True, open_transaction = 0,
                open_possibleUpgrade = False, open_log = [OtherQuery]\<rparr>\<rparr>"

definition journal0 :: journal where
  \<comment> \<open>a new journal, connected\<close>
  "journal0 = snd (checkConnect env0 SyncJournalDb)"

definition record0 :: SyncJournalFileRecord where
  "record0 =
     \<lparr>path = ''a/b'', inode = 7, mode = 420, modtime = Some 5000, type = 2, etag = ''e1'',
      fileId = ''id1'', remotePerm = [], fileSize = 10\<rparr>"


section \<open>The propagator (owncloudpropagator.cpp, here src/unnamed/part_000)\<close>

subsection \<open>Items and statuses\<close>

text \<open>\<open>SyncFileItem::Status\<close>, the instructions of csync and \<open>SyncFileItem::Direction\<close>.\<close>

datatype Status =
  NoStatus | FatalError | NormalError | SoftError | Success | Conflict | FileIgnored | Restoration

datatype csync_instruction =
    CSYNC_INSTRUCTION_NONE | CSYNC_INSTRUCTION_REMOVE | CSYNC_INSTRUCTION_NEW
  | CSYNC_INSTRUCTION_RENAME | CSYNC_INSTRUCTION_SYNC | CSYNC_INSTRUCTION_CONFLICT
  | CSYNC_INSTRUCTION_IGNORE | CSYNC_INSTRUCTION_ERROR | CSYNC_INSTRUCTION_TYPE_CHANGE
  | CSYNC_INSTRUCTION_UPDATE_METADATA

datatype Direction = NoDirection | Up | Down

text \<open>The members of \<open>SyncFileItem\<close> that the propagator reads or writes.\<close>

record SyncFileItem =
  item_file :: string
  originalFile :: string
  renameTarget :: string
  instruction :: csync_instruction
  direction :: Direction
  item_size :: int
  isDirectory :: bool
  isRestoration :: bool
  hasBlacklistEntry :: bool
  errorMayBeBlacklisted :: bool
  status :: Status
  errorString :: string

definition default_item :: SyncFileItem where
  \<comment> \<open>a default constructed item, as the root directory job has\<close>
  "default_item =
     \<lparr>item_file = [], originalFile = [], renameTarget = [], instruction = CSYNC_INSTRUCTION_NONE,
      direction = NoDirection, item_size = 0, isDirectory = False, isRestoration = False,
      hasBlacklistEntry = False, errorMayBeBlacklisted = False, status = NoStatus,
      errorString = []\<rparr>"

datatype JobState = NotYetStarted | Running | Finished

subsection \<open>Leaf completion: \<open>blacklistCheck\<close> and \<open>PropagateItemJob::done\<close>\<close>

text \<open>
  The journal this file calls has \<open>errorBlacklistEntry\<close>, \<open>updateErrorBlacklistEntry\<close> and
  \<open>wipeErrorBlacklistEntry\<close>, and the record has \<open>update\<close> and \<open>isValid\<close>; none of the five
  is among the sources, so they are parameters, over any type \<open>'j\<close> of journals.
\<close>

record 'j blacklist_api =
  errorBlacklistEntry :: "'j \<Rightarrow> string \<Rightarrow> SyncJournalBlacklistRecord \<times> 'j"
  updateErrorBlacklistEntry :: "'j \<Rightarrow> SyncJournalBlacklistRecord \<Rightarrow> 'j"
  wipeErrorBlacklistEntry :: "'j \<Rightarrow> string \<Rightarrow> 'j"
  update :: "SyncJournalBlacklistRecord \<Rightarrow> SyncFileItem \<Rightarrow> SyncJournalBlacklistRecord"
  isValid :: "SyncJournalBlacklistRecord \<Rightarrow> bool"

definition newEntry :: "'j blacklist_api \<Rightarrow> 'j \<Rightarrow> SyncFileItem \<Rightarrow> SyncJournalBlacklistRecord" where
  \<comment> \<open>the entry \<open>blacklistCheck\<close> computes from the journal's entry and the item\<close>
  "newEntry A j item = update A (fst (errorBlacklistEntry A j (item_file item))) item"

definition blacklistCheck :: "'j blacklist_api \<Rightarrow> 'j \<Rightarrow> SyncFileItem \<Rightarrow> bool \<times> 'j" where
  "blacklistCheck A j item =
     (let (oldEntry, j1) = errorBlacklistEntry A j (item_file item);
          new = update A oldEntry item;
          j2 = (if isValid A new then updateErrorBlacklistEntry A j1 new
                else if isValid A oldEntry then wipeErrorBlacklistEntry A j1 (item_file item)
                else j1)
      in (isValid A new \<and> ignoreDuration new > 0, j2))"

text \<open>
  What \<open>done\<close> changes: the job's state, the item, the journal; and what it sends: the
  signals \<open>itemCompleted\<close> and \<open>finished\<close>, and the call of the propagator's \<open>abort\<close>.
  Messages are untranslated: \<open>tr\<close> returns its text.
\<close>

datatype job_event = itemCompleted SyncFileItem | finished Status | abort

record 'j PropagateItemJob =
  job_state :: JobState
  item :: SyncFileItem
  abortRequested :: bool
  journal_of :: "'j"
  events :: "job_event list"

definition note_error :: "SyncFileItem \<Rightarrow> Status \<Rightarrow> string \<Rightarrow> Status \<times> SyncFileItem" where
  \<comment> \<open>the first statement of \<open>done\<close> after the state is set: restoration and the error text\<close>
  "note_error it st errorString0 =
     (if isRestoration it then
        (if st = Success \<or> st = Conflict then (Restoration, it)
         else (st, it\<lparr>errorString := errorString it @ ''; Restoration Failed: '' @ errorString0\<rparr>))
      else (st, if errorString it = [] then it\<lparr>errorString := errorString0\<rparr> else it))"

definition on_abort :: "bool \<Rightarrow> Status \<Rightarrow> Status" where
  \<comment> \<open>an abort request is ongoing: change the status to SoftError\<close>
  "on_abort requested st =
     (if requested \<and> (st = NormalError \<or> st = FatalError) then SoftError else st)"

definition on_error ::
  "'j blacklist_api \<Rightarrow> 'j \<Rightarrow> SyncFileItem \<Rightarrow> Status \<Rightarrow> Status \<times> SyncFileItem \<times> 'j" where
  \<comment> \<open>the cases SoftError, FatalError and NormalError of the switch\<close>
  "on_error A j it st =
     (if st = NormalError \<or> errorMayBeBlacklisted it then
        (let (suppress, j1) = blacklistCheck A j it
         in if suppress \<and> hasBlacklistEntry it then
              (FileIgnored, it\<lparr>errorString := (''Continue blacklisting:'' @ '' '') @ errorString it\<rparr>, j1)
            else (st, it, j1))
      else (st, it, j))"

definition on_success ::
  "'j blacklist_api \<Rightarrow> 'j \<Rightarrow> SyncFileItem \<Rightarrow> Status \<Rightarrow> Status \<times> SyncFileItem \<times> 'j" where
  \<comment> \<open>the cases Success and Restoration of the switch\<close>
  "on_success A j it st =
     (if hasBlacklistEntry it then
        (let j1 = wipeErrorBlacklistEntry A j (item_file it)
         in (st, it,
             if originalFile it \<noteq> item_file it then wipeErrorBlacklistEntry A j1 (originalFile it)
             else j1))
      else (st, it, j))"

definition blacklist_switch ::
  "'j blacklist_api \<Rightarrow> 'j \<Rightarrow> SyncFileItem \<Rightarrow> Status \<Rightarrow> Status \<times> SyncFileItem \<times> 'j" where
  "blacklist_switch A j it st =
     (case st of
        SoftError \<Rightarrow> on_error A j it st
      | FatalError \<Rightarrow> on_error A j it st
      | NormalError \<Rightarrow> on_error A j it st
      | Success \<Rightarrow> on_success A j it st
      | Restoration \<Rightarrow> on_success A j it st
      | Conflict \<Rightarrow> (st, it, j)
      | FileIgnored \<Rightarrow> (st, it, j)
      | NoStatus \<Rightarrow> (st, it, j))"

definition PropagateItemJob_done ::
  "'j blacklist_api \<Rightarrow> 'j PropagateItemJob \<Rightarrow> Status \<Rightarrow> string \<Rightarrow> 'j PropagateItemJob" where
  "PropagateItemJob_done A job status0 errorString0 =
     (let (st1, it1) = note_error (item job) status0 errorString0;
          st2 = on_abort (abortRequested job) st1;
          (st3, it3, j3) = blacklist_switch A (journal_of job) it1 st2;
          it4 = it3\<lparr>status := st3\<rparr>
      in job\<lparr>job_state := Finished, item := it4, journal_of := j3,
             events := events job @ [itemCompleted it4, finished st3]
                       @ (if st3 = FatalError then [abort] else [])\<rparr>)"

text \<open>
  Modelled from the spec: \<open>SyncJournalErrorBlacklistRecord::update\<close> and \<open>isValid\<close> are
  missing from the sources. The update "increments retryCount, doubles ignoreDuration
  bounded by a configured max, and refreshes lastTryEtag/modtime/time"; a first entry is
  "created with retryCount=1, ignoreDuration>0". An entry that names no file (an unset
  one) is not valid. The item's etag and modification time are not modelled, so the
  entry's are kept. \<open>lo\<close> is the first duration, \<open>hi\<close> the bound, \<open>now\<close> the time of the try.
\<close>

definition spec_update ::
  "int \<Rightarrow> int \<Rightarrow> int \<Rightarrow> SyncJournalBlacklistRecord \<Rightarrow> SyncFileItem \<Rightarrow> SyncJournalBlacklistRecord" where
  "spec_update lo hi now old it =
     old\<lparr>bl_file := item_file it,
         retryCount := retryCount old + 1,
         bl_errorString := errorString it,
         lastTryTime := now,
         ignoreDuration := min hi (max lo (2 * ignoreDuration old))\<rparr>"

definition spec_isValid :: "SyncJournalBlacklistRecord \<Rightarrow> bool" where
  "spec_isValid e = (bl_file e \<noteq> [])"

subsection \<open>Composite jobs\<close>

text \<open>
  A job is referred to by pointer: a directory job by its index in the list of directory
  jobs that \<open>start\<close> allocates, a leaf job by its kind and the index of its item in the
  item vector; \<open>NullJob\<close> is the null pointer \<open>createJob\<close> may return.
\<close>

datatype job_kind =
    PropagateLocalRemove | PropagateRemoteDelete
  | PropagateLocalMkdir bool | PropagateRemoteMkdir bool
  | PropagateDownloadFile bool | PropagateUploadFileNG bool | PropagateUploadFileV1 bool
  | PropagateRemoteMove | PropagateLocalRename | PropagateIgnoreJob

datatype PropagatorJob = DirectoryJob nat | ItemJob job_kind nat | NullJob

datatype composite_event = emit_finished Status | scheduleNextJob

record PropagatorCompositeJob =
  state :: JobState
  jobsToDo :: "PropagatorJob list"
  tasksToDo :: "nat list"
  runningJobs :: "PropagatorJob list"
  hasError :: Status
  sent :: "composite_event list"






definition is_error :: "Status \<Rightarrow> bool" where
  "is_error st = (st = FatalError \<or> st = NormalError \<or> st = SoftError)"



subsection \<open>Building the job tree: \<open>createJob\<close> and \<open>OwncloudPropagator::start\<close>\<close>



text \<open>
  A directory job: the pointer to its item (\<open>None\<close> is the root job's own item, which is
  not in the vector), its first job, its composite of sub jobs, and the count that
  \<open>increaseAffectedCount\<close> raises.
\<close>

record PropagateDirectory =
  dir_item :: "nat option"
  firstJob :: "job_kind option"
  subJobs :: PropagatorCompositeJob
  affectedCount :: nat




definition increaseAffectedCount :: "PropagateDirectory \<Rightarrow> PropagateDirectory" where
  "increaseAffectedCount d = d\<lparr>affectedCount := affectedCount d + 1\<rparr>"

text \<open>
  The objects \<open>start\<close> works on. \<open>items\<close> are the items the vector's pointers point to
  (the vector itself does not change, the items do), \<open>dirJobs\<close> are the directory jobs
  allocated so far, the root job first; \<open>directories\<close> is the stack, its top first;
  the rest are the locals and the member of the same names.
\<close>

record OwncloudPropagator =
  items :: "SyncFileItem list"
  rootItem :: SyncFileItem
  dirJobs :: "PropagateDirectory list"
  directories :: "(string \<times> nat) list"
  directoriesToRemove :: "PropagatorJob list"
  removedDirectory :: string
  anotherSyncNeeded :: bool

text \<open>
  The first statement of the loop body, for the item at index \<open>i\<close>: an item in the
  directory that is going to be removed. The bool says that the body ends here
  (\<open>continue\<close>). \<open>None\<close> is \<open>first()\<close> of an empty vector.
\<close>

definition removal_check :: "OwncloudPropagator \<Rightarrow> nat \<Rightarrow> (OwncloudPropagator \<times> bool) option" where
  "removal_check st i =
     (let it = items st ! i
      in if removedDirectory st \<noteq> [] \<and> startsWith (item_file it) (removedDirectory st) then
           (case directoriesToRemove st of
              [] \<Rightarrow> None
            | j # _ \<Rightarrow>
                (let increased =
                       (case j of
                          DirectoryJob d \<Rightarrow>
                            st\<lparr>dirJobs := (dirJobs st)[d := increaseAffectedCount (dirJobs st ! d)]\<rparr>
                        | ItemJob k n \<Rightarrow> st
                        | NullJob \<Rightarrow> st)
                 in if instruction it = CSYNC_INSTRUCTION_REMOVE then Some (increased, True)
                    else if isDirectory it
                            \<and> (instruction it = CSYNC_INSTRUCTION_NEW
                                \<or> instruction it = CSYNC_INSTRUCTION_TYPE_CHANGE)
                    then Some (increased, True)
                    else if instruction it = CSYNC_INSTRUCTION_IGNORE then Some (st, True)
                    else Some (st, False)))
         else Some (st, False))"



fun keep_etags :: "(string \<times> nat) list \<Rightarrow> OwncloudPropagator \<Rightarrow> OwncloudPropagator" where
  \<comment> \<open>the loop over the stack that takes UPDATE_METADATA from the directories above a removed one\<close>
  "keep_etags [] st = st"
| "keep_etags ((name, d) # ds) st =
     keep_etags ds
       (case dir_item (dirJobs st ! d) of
          None \<Rightarrow>
            if instruction (rootItem st) = CSYNC_INSTRUCTION_UPDATE_METADATA
            then st\<lparr>rootItem := (rootItem st)\<lparr>instruction := CSYNC_INSTRUCTION_NONE\<rparr>\<rparr> else st
        | Some k \<Rightarrow>
            if instruction (items st ! k) = CSYNC_INSTRUCTION_UPDATE_METADATA
            then st\<lparr>items := (items st)[k := (items st ! k)\<lparr>instruction := CSYNC_INSTRUCTION_NONE\<rparr>]\<rparr>
            else st)"













definition removes_directory :: "SyncFileItem \<Rightarrow> bool" where
  \<comment> \<open>the items that set \<open>removedDirectory\<close>: a removed directory, a file that replaces a directory\<close>
  "removes_directory it =
     (if isDirectory it then instruction it = CSYNC_INSTRUCTION_REMOVE
      else instruction it = CSYNC_INSTRUCTION_TYPE_CHANGE)"

section \<open>Checking the server (src/mirall/networkjobs.cpp)\<close>

text \<open>
  A \<open>QUrl\<close> is its scheme and the rest of it. A reply carries what \<open>slotFinished\<close> reads:
  whether there was no error, the size, the URL that was requested, the redirection
  target and the keys of the JSON object in the body (\<open>None\<close> when it does not parse).
\<close>

record QUrl =
  scheme :: string
  url_rest :: string

definition isEmpty :: "QUrl \<Rightarrow> bool" where
  "isEmpty u = (scheme u = [] \<and> url_rest u = [])"

record QNetworkReply =
  noError :: bool
  reply_size :: int
  request_url :: QUrl
  redirectionTarget :: QUrl
  json_keys :: "string list option"

datatype check_event = setCertificateChain | instanceFound | deleteLater

record CheckServerJob =
  followRedirects :: bool
  redirectCount :: int
  reply :: "QNetworkReply option"
  check_events :: "check_event list"

definition new_CheckServerJob :: "bool \<Rightarrow> CheckServerJob" where
  \<comment> \<open>the constructor's initialisers; its body then sets the reply of the first request\<close>
  "new_CheckServerJob followRedirect =
     \<lparr>followRedirects = followRedirect, redirectCount = 0, reply = None, check_events = []\<rparr>"

definition setReply :: "CheckServerJob \<Rightarrow> QNetworkReply \<Rightarrow> CheckServerJob" where
  "setReply job r = job\<lparr>reply := Some r\<rparr>"

definition answer :: "CheckServerJob \<Rightarrow> QNetworkReply \<Rightarrow> CheckServerJob" where
  \<comment> \<open>the end of \<open>slotFinished\<close>: read the body, report an instance, delete the job\<close>
  "answer job r =
     job\<lparr>check_events := check_events job
           @ (case json_keys r of
                Some ks \<Rightarrow>
                  if ''installed'' \<in> set ks \<and> ''version'' \<in> set ks \<and> ''versionstring'' \<in> set ks
                  then [instanceFound] else []
              | None \<Rightarrow> [])
           @ [deleteLater]\<rparr>"

text \<open>
  \<open>slotFinished\<close>; \<open>MAX_REDIRECTS\<close> is a macro that the sources do not define, so it is a
  parameter. \<open>None\<close> is the call on a job without a reply, which dereferences a null
  pointer. In the branch that follows a redirect the job gives up its reply and returns;
  the request for the target is commented out in the source.
\<close>

definition slotFinished :: "nat \<Rightarrow> CheckServerJob \<Rightarrow> CheckServerJob option" where
  "slotFinished MAX_REDIRECTS job =
     (case reply job of
        None \<Rightarrow> None
      | Some r \<Rightarrow>
          if noError r \<and> reply_size r = 0 then
            Some (job\<lparr>check_events := check_events job @ [deleteLater]\<rparr>)
          else
            (let job1 = job\<lparr>check_events := check_events job @ [setCertificateChain]\<rparr>;
                 requestedUrl = request_url r;
                 redirectUrl = redirectionTarget r
             in if \<not> isEmpty redirectUrl then
                  (let job2 = job1\<lparr>redirectCount := redirectCount job1 + 1\<rparr>
                   in if scheme requestedUrl = ''https'' \<and> scheme redirectUrl = ''http''
                      then Some (answer job2 r)
                      else if requestedUrl = redirectUrl \<or> redirectCount job2 \<ge> int MAX_REDIRECTS
                      then Some (answer job2 r)
                      else Some (job2\<lparr>reply := None\<rparr>))
                else Some (answer job1 r)))"

definition deleted :: "CheckServerJob \<Rightarrow> bool" where
  "deleted job = (deleteLater \<in> set (check_events job))"

text \<open>
  A job that receives the replies \<open>rs\<close> one after the other, each set as its reply before
  \<open>slotFinished\<close> runs, until it deletes itself: \<open>followed\<close> lists the replies whose
  redirect the job followed, that is, after which it is still waiting.
\<close>

fun followed :: "nat \<Rightarrow> CheckServerJob \<Rightarrow> QNetworkReply list \<Rightarrow> QNetworkReply list" where
  "followed M job [] = []"
| "followed M job (r # rs) =
     (case slotFinished M (setReply job r) of
        None \<Rightarrow> []
      | Some job1 \<Rightarrow> if deleted job1 then [] else r # followed M job1 rs)"

section \<open>Concrete inputs and the notions the proofs use\<close>

subsection \<open>Jobs, items and replies\<close>



text \<open>
  A journal with a blacklist entry for \<open>f\<close>, and a running job for \<open>f\<close>, whose item has
  that entry and may be blacklisted, while an abort is requested. The journal's calls
  are those of the journal above.
\<close>

definition api0 :: "journal blacklist_api" where
  "api0 =
     \<lparr>errorBlacklistEntry = blacklistEntry env0,
      updateErrorBlacklistEntry = updateBlacklistEntry env0,
      wipeErrorBlacklistEntry = wipeBlacklistEntry env0,
      update = spec_update 25 86400 1000,
      isValid = spec_isValid\<rparr>"

definition item0 :: SyncFileItem where
  "item0 =
     default_item\<lparr>item_file := ''f'', originalFile := ''f'',
       instruction := CSYNC_INSTRUCTION_SYNC, direction := Up,
       hasBlacklistEntry := True, errorMayBeBlacklisted := True\<rparr>"

definition job0 :: "journal PropagateItemJob" where
  "job0 =
     \<lparr>job_state = Running, item = item0, abortRequested = True,
      journal_of = journal0\<lparr>blacklist :=
        [default_blacklist_record\<lparr>bl_file := ''f'', retryCount := 1, lastTryTime := 900,
           ignoreDuration := 25\<rparr>]\<rparr>,
      events = []\<rparr>"

definition redirect_to :: "string \<Rightarrow> string \<Rightarrow> string \<Rightarrow> string \<Rightarrow> QNetworkReply" where
  \<comment> \<open>a reply that redirects the request for one URL to another\<close>
  "redirect_to s1 u1 s2 u2 =
     \<lparr>noError = True, reply_size = 10,
      request_url = \<lparr>scheme = s1, url_rest = u1\<rparr>,
      redirectionTarget = \<lparr>scheme = s2, url_rest = u2\<rparr>,
      json_keys = None\<rparr>"

definition replies0 :: "QNetworkReply list" where
  "replies0 =
     [redirect_to ''http'' ''a/status.php'' ''http'' ''b/status.php'',
      redirect_to ''http'' ''b/status.php'' ''https'' ''b/status.php'',
      redirect_to ''https'' ''b/status.php'' ''https'' ''c/status.php'',
      redirect_to ''https'' ''c/status.php'' ''https'' ''d/status.php'']"

subsection \<open>The state of \<open>start\<close> between two items\<close>







subsection \<open>Concrete item vectors\<close>







section \<open>Theorems\<close>

subsection \<open>The transaction counter\<close>



subsection \<open>File records\<close>

lemma sql_like_percent: "sql_like ''%'' t"
  by (induction t) auto

lemma sql_like_percent_empty: "sql_like p t \<Longrightarrow> sql_like (CHR ''%'' # p) t"
  by (cases t) auto

lemma sql_like_dir_prefix: "sql_like (p @ ''/%'') (p @ ''/'' @ rest)"
proof (induction p)
  case Nil
  show ?case using sql_like_percent [of rest] by simp
next
  case (Cons c p)
  show ?case
  proof (cases "c = CHR ''%''")
    case True
    have "sql_like (CHR ''%'' # p @ ''/%'') (p @ ''/'' @ rest)"
      using Cons.IH by (rule sql_like_percent_empty)
    with True show ?thesis by simp
  next
    case False
    with Cons.IH show ?thesis by simp
  qed
qed

lemma filter_etag_cases: "filter_etag pre its e = (if list_ex (\<lambda>it. startsWith it pre) its then ''_invalid_'' else e)"
  by (induction its) auto

lemma checkConnect_frame:
  "metadata (snd (checkConnect E s)) = metadata s"
  "avoidReadFromDbOnNextSyncFilter (snd (checkConnect E s)) = avoidReadFromDbOnNextSyncFilter s"
  by (simp_all add: checkConnect_def)



lemma getFileRecord_no_row:
  assumes "metadata s (getPHash E q) = None"
  shows "fst (getFileRecord E s q) = default_record"
  using assms checkConnect_frame(1) [of E s]
  by (cases "checkConnect E s") (simp add: getFileRecord_def exec_def Let_def)


lemma deleteFileRecord_connected:
  assumes "fst (checkConnect E s)"
    and "exec_ok E DeleteFileRecordPhash" and "exec_ok E DeleteFileRecordRecursively"
  shows "fst (deleteFileRecord E s p True)"
    and "metadata (snd (deleteFileRecord E s p True))
           = delete_like p ((metadata s)(getPHash E p := None))"
    and "db_isOpen (snd (deleteFileRecord E s p True)) = db_isOpen (snd (checkConnect E s))"
  using assms checkConnect_frame(1) [of E s]
  by (cases "checkConnect E s"; simp add: deleteFileRecord_def exec_def Let_def)+



text \<open>
  C6. On a journal that connects, when both DELETE statements execute,
  \<open>deleteFileRecord p true\<close> succeeds and \<open>getFileRecord q\<close> then returns the default
  (empty) record for \<open>q = p\<close> and for every \<open>q\<close> that starts with \<open>p\<close> and a slash. For
  such a \<open>q\<close> the row stored under \<open>q\<close>'s hash, if there is one, is taken to be \<open>q\<close>'s
  own row: the table is keyed by the hash of the path, and two paths with one hash share
  a row.
\<close>

theorem deleteFileRecord_recursive_getFileRecord:
  assumes "fst (checkConnect E s)"
    and "exec_ok E DeleteFileRecordPhash" and "exec_ok E DeleteFileRecordRecursively"
    and "q = p \<or> (startsWith q (p @ ''/'')
            \<and> (\<forall>row. metadata s (getPHash E q) = Some row \<longrightarrow> col_path row = q))"
  shows "fst (deleteFileRecord E s p True)
     \<and> fst (getFileRecord E (snd (deleteFileRecord E s p True)) q) = default_record"
proof -
  let ?s' = "snd (deleteFileRecord E s p True)"
  note d = deleteFileRecord_connected [OF assms(1-3), of p]
  have gone: "metadata ?s' (getPHash E q) = None"
  proof (cases "q = p")
    case True
    then show ?thesis by (simp add: d(2) delete_like_def)
  next
    case False
    with assms(4) have pre: "startsWith q (p @ ''/'')"
      and own: "\<forall>row. metadata s (getPHash E q) = Some row \<longrightarrow> col_path row = q"
      by auto
    from pre obtain rest where q: "q = p @ ''/'' @ rest"
      by (auto simp: startsWith_def prefix_def)
    have "sql_like (p @ ''/%'') q"
      unfolding q by (rule sql_like_dir_prefix)
    with own show ?thesis
      by (auto simp: d(2) delete_like_def split: option.splits)
  qed
  show ?thesis
    by (simp add: d(1) getFileRecord_no_row [OF gone])
qed

theorem deleteFileRecord_recursive_getFileRecord_witness:
  "db_isOpen (snd (setFileRecord env0 journal0 record0))
   \<and> startsWith ''a/b'' (''a'' @ ''/'')
   \<and> fst (getFileRecord env0 (snd (setFileRecord env0 journal0 record0)) ''a/b'') = record0
   \<and> fst (deleteFileRecord env0 (snd (setFileRecord env0 journal0 record0)) ''a'' True)
   \<and> fst (getFileRecord env0
         (snd (deleteFileRecord env0 (snd (setFileRecord env0 journal0 record0)) ''a'' True))
         ''a/b'') = default_record"
proof -
  let ?s = "snd (setFileRecord env0 journal0 record0)"
  have o: "db_isOpen ?s"
    by (simp add: setFileRecord_def exec_def Let_def checkConnect_def journal0_def env0_def
        SyncJournalDb_def)
  have x: "exec_ok env0 DeleteFileRecordPhash" "exec_ok env0 DeleteFileRecordRecursively"
    by (simp_all add: env0_def)
  have p: "startsWith ''a/b'' (''a'' @ ''/'')"
    by (simp add: startsWith_def)
  have own: "\<forall>row. metadata ?s (getPHash env0 ''a/b'') = Some row \<longrightarrow> col_path row = ''a/b''"
    by (simp add: setFileRecord_def exec_def Let_def checkConnect_def journal0_def env0_def
        SyncJournalDb_def getPHash_def filtered_def bound_row_def record0_def)
  have g: "fst (getFileRecord env0 ?s ''a/b'') = record0"
    by (simp add: getFileRecord_def setFileRecord_def exec_def Let_def checkConnect_def
        journal0_def env0_def SyncJournalDb_def getPHash_def filtered_def bound_row_def
        read_row_def record0_def)
  show ?thesis
    using deleteFileRecord_recursive_getFileRecord [where E = env0 and s = ?s
        and q = "''a/b''" and p = "''a''"] o x p own g
    by (simp add: checkConnect_def)
qed

subsection \<open>The invalidation filter\<close>

lemma filter_call: "avoidReadFromDbOnNextSyncFilter (call s c) = avoidReadFromDbOnNextSyncFilter s
    \<or> (\<exists>p. avoidReadFromDbOnNextSyncFilter (call s c) = avoidReadFromDbOnNextSyncFilter s @ [p])"
proof (cases c)
  case (Pair E k)
  show ?thesis unfolding Pair
    by (cases k)
       (auto simp: setFileRecord_def deleteFileRecord_def getFileRecord_def blacklistEntry_def
          wipeBlacklistEntry_def updateBlacklistEntry_def avoidRenamesOnNextSync_def
          avoidReadFromDbOnNextSync_def commit_def commitInternal_def commitTransaction_def
          startTransaction_def commitIfNeededAndStartNewTransaction_def sqlFail_def
          checkConnect_def exec_def Let_def split: if_splits option.splits prod.splits)
qed

lemma filter_calls: "p \<in> set (avoidReadFromDbOnNextSyncFilter s)
    \<Longrightarrow> p \<in> set (avoidReadFromDbOnNextSyncFilter (calls s cs))"
  unfolding calls_def
proof (induction cs arbitrary: s)
  case Nil
  then show ?case by simp
next
  case (Cons c cs)
  have "p \<in> set (avoidReadFromDbOnNextSyncFilter (call s c))"
    using filter_call [of s c] Cons.prems by auto
  then show ?case using Cons.IH by simp
qed

text \<open>
  C2, amended. After \<open>avoidReadFromDbOnNextSync p\<close> on a journal that connects, and
  after any further calls other than \<open>close\<close>, a \<open>setFileRecord r\<close> that connects and
  executes stores the etag \<open>_invalid_\<close> whenever \<open>p\<close> starts with \<open>r\<close>'s path and a slash,
  that is, whenever \<open>r\<close> is a directory above \<open>p\<close>. After \<open>close\<close> the filter is empty and
  a record is stored with its own etag.
\<close>

theorem avoidReadFromDb_invalidates_parents:
  assumes "fst (checkConnect E0 s)"
    and "fst (checkConnect E (calls (avoidReadFromDbOnNextSync E0 s p) cs))"
    and "exec_ok E SetFileRecordQuery"
    and "startsWith p (path r @ ''/'')"
  shows "fst (setFileRecord E (calls (avoidReadFromDbOnNextSync E0 s p) cs) r)
     \<and> map_option col_md5
          (metadata (snd (setFileRecord E (calls (avoidReadFromDbOnNextSync E0 s p) cs) r))
             (getPHash E (path r))) = Some ''_invalid_''
     \<and> filtered (close E1 (calls (avoidReadFromDbOnNextSync E0 s p) cs)) r = r"
proof -
  let ?s2 = "calls (avoidReadFromDbOnNextSync E0 s p) cs"
  have "p \<in> set (avoidReadFromDbOnNextSyncFilter (avoidReadFromDbOnNextSync E0 s p))"
    using assms(1) by (cases "checkConnect E0 s") (simp add: avoidReadFromDbOnNextSync_def exec_def Let_def)
  then have mem: "p \<in> set (avoidReadFromDbOnNextSyncFilter ?s2)"
    by (rule filter_calls)
  then have ne: "avoidReadFromDbOnNextSyncFilter ?s2 \<noteq> []"
    by auto
  have hit: "list_ex (\<lambda>it. startsWith it (path r @ ''/'')) (avoidReadFromDbOnNextSyncFilter ?s2)"
    using mem assms(4) by (auto simp: list_ex_iff)
  have e: "etag (filtered ?s2 r) = ''_invalid_''" and pa: "path (filtered ?s2 r) = path r"
    using ne hit by (simp_all add: filtered_def filter_etag_cases)
  have "filtered (close E1 ?s2) r = r"
    by (simp add: filtered_def close_def)
  moreover have "fst (setFileRecord E ?s2 r)"
    using assms(2,3) by (cases "checkConnect E ?s2") (simp add: setFileRecord_def exec_def Let_def)
  moreover have "map_option col_md5 (metadata (snd (setFileRecord E ?s2 r)) (getPHash E (path r))) = Some ''_invalid_''"
    using assms(2,3) e pa
    by (cases "checkConnect E ?s2") (simp add: setFileRecord_def exec_def Let_def bound_row_def)
  ultimately show ?thesis by simp
qed

theorem avoidReadFromDb_invalidates_parents_witness:
  "startsWith ''a/b/c'' (path record0 @ ''/'')
   \<and> fst (setFileRecord env0
         (calls (avoidReadFromDbOnNextSync env0 journal0 ''a/b/c'') [(env0, GetFileRecord ''x'')])
         record0)
   \<and> map_option col_md5
        (metadata (snd (setFileRecord env0
           (calls (avoidReadFromDbOnNextSync env0 journal0 ''a/b/c'') [(env0, GetFileRecord ''x'')])
           record0))
         (getPHash env0 (path record0))) = Some ''_invalid_''"
proof -
  have c: "fst (checkConnect env0 journal0)"
    by (simp add: checkConnect_def journal0_def env0_def SyncJournalDb_def)
  have c2: "fst (checkConnect env0
      (calls (avoidReadFromDbOnNextSync env0 journal0 ''a/b/c'') [(env0, GetFileRecord ''x'')]))"
    by (simp add: calls_def getFileRecord_def avoidReadFromDbOnNextSync_def exec_def Let_def
        checkConnect_def journal0_def env0_def SyncJournalDb_def)
  have x: "exec_ok env0 SetFileRecordQuery"
    by (simp add: env0_def)
  have p: "startsWith ''a/b/c'' (path record0 @ ''/'')"
    by (simp add: startsWith_def record0_def)
  show ?thesis
    using avoidReadFromDb_invalidates_parents [OF c c2 x p] p by simp
qed

text \<open>
  C2 as stated fails: after \<open>avoidReadFromDbOnNextSync ''a''\<close> the record of \<open>a/b\<close>, whose
  path starts with \<open>a/\<close>, is stored with its own etag \<open>e1\<close>.
\<close>

theorem avoidReadFromDb_children_counterexample:
  "startsWith (path record0) (''a'' @ ''/'')
   \<and> fst (setFileRecord env0 (avoidReadFromDbOnNextSync env0 journal0 ''a'') record0)
   \<and> map_option col_md5
        (metadata (snd (setFileRecord env0 (avoidReadFromDbOnNextSync env0 journal0 ''a'') record0))
         (getPHash env0 (path record0))) = Some ''e1''
   \<and> ''e1'' \<noteq> ''_invalid_''"
  by (simp add: startsWith_def record0_def setFileRecord_def avoidReadFromDbOnNextSync_def
      exec_def Let_def checkConnect_def journal0_def env0_def SyncJournalDb_def filtered_def
      bound_row_def getPHash_def)

subsection \<open>The blacklist on the empty path\<close>

text \<open>
  C10. For the empty path \<open>blacklistEntry\<close> returns a default record and
  \<open>wipeBlacklistEntry\<close> returns, both with the journal exactly as it was: no connection
  is made, no statement is executed (the log of statements is part of the state), and no
  row of the blacklist changes.
\<close>

theorem blacklist_empty_path:
  "blacklistEntry E s [] = (default_blacklist_record, s) \<and> wipeBlacklistEntry E s [] = s"
  by (simp add: blacklistEntry_def wipeBlacklistEntry_def)

subsection \<open>Composite jobs\<close>







subsection \<open>Leaf completion\<close>

lemma note_error_is_error:
  "is_error st \<Longrightarrow> fst (note_error it st e) = st"
  by (auto simp: note_error_def is_error_def)

lemma note_error_flags:
  "hasBlacklistEntry (snd (note_error it st e)) = hasBlacklistEntry it
   \<and> errorMayBeBlacklisted (snd (note_error it st e)) = errorMayBeBlacklisted it
   \<and> item_file (snd (note_error it st e)) = item_file it"
  by (simp add: note_error_def)

lemma blacklistCheck_fst:
  "fst (blacklistCheck A j it) = (isValid A (newEntry A j it) \<and> ignoreDuration (newEntry A j it) > 0)"
  by (simp add: blacklistCheck_def newEntry_def Let_def split: prod.splits)

lemma on_error_status:
  "fst (on_error A j it st) =
     (if (st = NormalError \<or> errorMayBeBlacklisted it) \<and> hasBlacklistEntry it
         \<and> isValid A (newEntry A j it) \<and> ignoreDuration (newEntry A j it) > 0
      then FileIgnored else st)"
  using blacklistCheck_fst [of A j it]
  by (cases "blacklistCheck A j it") (auto simp: on_error_def Let_def)

lemma on_error_errorString:
  "errorString (fst (snd (on_error A j it st))) =
     (if (st = NormalError \<or> errorMayBeBlacklisted it) \<and> hasBlacklistEntry it
         \<and> isValid A (newEntry A j it) \<and> ignoreDuration (newEntry A j it) > 0
      then ''Continue blacklisting: '' @ errorString it else errorString it)"
  using blacklistCheck_fst [of A j it]
  by (cases "blacklistCheck A j it") (auto simp: on_error_def Let_def)

lemma done_on_error:
  assumes "is_error st0"
  shows "status (item (PropagateItemJob_done A job st0 e))
           = fst (on_error A (journal_of job) (snd (note_error (item job) st0 e))
                   (on_abort (abortRequested job) st0))
     \<and> errorString (item (PropagateItemJob_done A job st0 e))
           = errorString (fst (snd (on_error A (journal_of job) (snd (note_error (item job) st0 e))
                   (on_abort (abortRequested job) st0))))
     \<and> events (PropagateItemJob_done A job st0 e)
           = events job @ [itemCompleted (item (PropagateItemJob_done A job st0 e)),
                finished (status (item (PropagateItemJob_done A job st0 e)))]
             @ (if status (item (PropagateItemJob_done A job st0 e)) = FatalError then [abort] else [])"
proof -
  obtain st1 it1 where n: "note_error (item job) st0 e = (st1, it1)"
    by (cases "note_error (item job) st0 e")
  with assms note_error_is_error [of st0 "item job" e] have st1: "st1 = st0"
    by simp
  have err: "is_error (on_abort (abortRequested job) st0)"
    using assms by (auto simp: on_abort_def is_error_def)
  obtain st3 it3 j3 where o: "on_error A (journal_of job) it1 (on_abort (abortRequested job) st0) = (st3, it3, j3)"
    by (cases "on_error A (journal_of job) it1 (on_abort (abortRequested job) st0)")
  have sw: "blacklist_switch A (journal_of job) it1 (on_abort (abortRequested job) st0) = (st3, it3, j3)"
    using err o by (auto simp: blacklist_switch_def is_error_def split: Status.splits)
  show ?thesis
    by (simp add: PropagateItemJob_done_def n st1 sw o Let_def)
qed

lemma done_error_outcome:
  assumes "is_error st0"
    and "sw = on_abort (abortRequested job) st0"
    and "it1 = snd (note_error (item job) st0 e)"
    and "job' = PropagateItemJob_done A job st0 e"
  shows "(status (item job') = FileIgnored
          \<longleftrightarrow> hasBlacklistEntry (item job)
              \<and> isValid A (newEntry A (journal_of job) it1)
              \<and> ignoreDuration (newEntry A (journal_of job) it1) > 0
              \<and> (sw = NormalError \<or> errorMayBeBlacklisted (item job)))
     \<and> (status (item job') = FileIgnored
          \<longrightarrow> errorString (item job') = ''Continue blacklisting: '' @ errorString it1
              \<and> finished FileIgnored \<in> set (events job'))
     \<and> (status (item job') \<noteq> FileIgnored \<longrightarrow> status (item job') = sw)"
proof -
  have sw_err: "sw \<noteq> FileIgnored"
    using assms(1,2) by (auto simp: on_abort_def is_error_def)
  note d = done_on_error [OF assms(1), of A job e]
  note f = note_error_flags [of "item job" st0 e]
  show ?thesis
    unfolding assms(4)
    using d f sw_err
    by (auto simp: on_error_status on_error_errorString assms(2,3) split: if_splits)
qed


lemma switch_status:
  "fst (blacklist_switch A j it st) = st \<or> fst (blacklist_switch A j it st) = FileIgnored"
  by (cases st) (simp_all add: blacklist_switch_def on_error_status on_success_def Let_def)

lemma done_status:
  "status (item (PropagateItemJob_done A job st0 e))
     = fst (blacklist_switch A (journal_of job) (snd (note_error (item job) st0 e))
             (on_abort (abortRequested job) (fst (note_error (item job) st0 e))))"
  by (simp add: PropagateItemJob_done_def Let_def split: prod.splits)

lemma done_events:
  "events (PropagateItemJob_done A job st0 e)
     = events job @ [itemCompleted (item (PropagateItemJob_done A job st0 e)),
          finished (status (item (PropagateItemJob_done A job st0 e)))]
       @ (if status (item (PropagateItemJob_done A job st0 e)) = FatalError then [abort] else [])"
  by (simp add: PropagateItemJob_done_def Let_def split: prod.splits)

lemma note_error_status:
  "fst (note_error it st e) = st \<or> fst (note_error it st e) = Restoration"
  by (simp add: note_error_def)

text \<open>
  C7, amended. While an abort is requested no leaf completion ends with NormalError or
  FatalError, and none calls the propagator's \<open>abort\<close>. A completion with NormalError or
  FatalError enters the switch as SoftError, so it ends as SoftError, or as FileIgnored
  when the item may be blacklisted, was already blacklisted and its recomputed entry is
  valid with a positive \<open>ignoreDuration\<close>.
\<close>

theorem abort_downgrades_errors:
  assumes "abortRequested job"
    and "job' = PropagateItemJob_done A job st0 e"
    and "it1 = snd (note_error (item job) st0 e)"
  shows "status (item job') \<noteq> NormalError \<and> status (item job') \<noteq> FatalError
     \<and> events job' = events job @ [itemCompleted (item job'), finished (status (item job'))]
     \<and> (st0 = NormalError \<or> st0 = FatalError \<longrightarrow>
          (status (item job') = FileIgnored
             \<longleftrightarrow> errorMayBeBlacklisted (item job) \<and> hasBlacklistEntry (item job)
                 \<and> isValid A (newEntry A (journal_of job) it1)
                 \<and> ignoreDuration (newEntry A (journal_of job) it1) > 0)
        \<and> (status (item job') \<noteq> FileIgnored \<longrightarrow> status (item job') = SoftError))"
proof -
  let ?st1 = "fst (note_error (item job) st0 e)"
  have a: "on_abort True ?st1 \<noteq> NormalError" "on_abort True ?st1 \<noteq> FatalError"
    by (simp_all add: on_abort_def)
  have s: "status (item job') = on_abort True ?st1 \<or> status (item job') = FileIgnored"
    unfolding assms(2) done_status
    using switch_status [of A "journal_of job" it1 "on_abort True ?st1"] assms(1,3) by simp
  with a have no: "status (item job') \<noteq> NormalError" "status (item job') \<noteq> FatalError"
    by auto
  have ev: "events job' = events job @ [itemCompleted (item job'), finished (status (item job'))]"
    unfolding assms(2) using done_events [of A job st0 e] no(2) by (simp add: assms(2))
  have err: "(status (item job') = FileIgnored
             \<longleftrightarrow> errorMayBeBlacklisted (item job) \<and> hasBlacklistEntry (item job)
                 \<and> isValid A (newEntry A (journal_of job) it1)
                 \<and> ignoreDuration (newEntry A (journal_of job) it1) > 0)
        \<and> (status (item job') \<noteq> FileIgnored \<longrightarrow> status (item job') = SoftError)"
    if "st0 = NormalError \<or> st0 = FatalError"
  proof -
    from that have e0: "is_error st0" by (auto simp: is_error_def)
    have sw: "on_abort (abortRequested job) st0 = SoftError"
      using that assms(1) by (auto simp: on_abort_def)
    show ?thesis
      using done_error_outcome [OF e0 sw [symmetric] assms(3) assms(2)]
      by auto
  qed
  from no ev err show ?thesis by blast
qed

lemma job0_newEntry:
  "isValid api0 (newEntry api0 (journal_of job0) (snd (note_error (item job0) st ''err'')))
   \<and> ignoreDuration (newEntry api0 (journal_of job0) (snd (note_error (item job0) st ''err''))) = 50
   \<and> retryCount (newEntry api0 (journal_of job0) (snd (note_error (item job0) st ''err''))) = 2"
  by (simp add: newEntry_def api0_def job0_def item0_def default_item_def note_error_def
      blacklistEntry_def checkConnect_def exec_def journal0_def env0_def SyncJournalDb_def
      path_eq_def spec_update_def spec_isValid_def default_blacklist_record_def Let_def)

lemma job0_item:
  "hasBlacklistEntry (item job0) \<and> errorMayBeBlacklisted (item job0) \<and> abortRequested job0
   \<and> events job0 = []
   \<and> errorString (snd (note_error (item job0) st ''err'')) = ''err''"
  by (simp add: job0_def item0_def default_item_def note_error_def)

theorem abort_downgrades_errors_witness:
  "abortRequested job0
   \<and> status (item (PropagateItemJob_done api0 job0 FatalError ''err'')) = FileIgnored
   \<and> events (PropagateItemJob_done api0 job0 FatalError ''err'')
       = [itemCompleted (item (PropagateItemJob_done api0 job0 FatalError ''err'')),
          finished FileIgnored]"
  using abort_downgrades_errors [of job0 "PropagateItemJob_done api0 job0 FatalError ''err''"
      api0 FatalError "''err''" "snd (note_error (item job0) FatalError ''err'')"]
    job0_newEntry [of FatalError] job0_item [of FatalError]
  by simp

text \<open>
  C7 as stated fails: with an abort requested, a completion with NormalError of an item
  that may be blacklisted and has a blacklist entry ends with FileIgnored, not SoftError.
\<close>

theorem abort_softerror_counterexample:
  "abortRequested job0
   \<and> status (item (PropagateItemJob_done api0 job0 NormalError ''err'')) = FileIgnored
   \<and> status (item (PropagateItemJob_done api0 job0 NormalError ''err'')) \<noteq> SoftError"
proof -
  have e: "is_error NormalError" by (simp add: is_error_def)
  have "status (item (PropagateItemJob_done api0 job0 NormalError ''err'')) = FileIgnored"
    using done_error_outcome [OF e refl refl refl, where job = job0 and e = "''err''" and A = api0]
      job0_newEntry [of NormalError] job0_item [of NormalError]
    by simp
  then show ?thesis using job0_item [of NormalError] by simp
qed


subsection \<open>Redirects of the server check\<close>

lemma slotFinished_follows:
  assumes "slotFinished M (setReply job r) = Some job1" and "\<not> deleted job1"
  shows "redirectCount job1 = redirectCount job + 1 \<and> redirectCount job1 < int M
     \<and> \<not> (scheme (request_url r) = ''https'' \<and> scheme (redirectionTarget r) = ''http'')
     \<and> request_url r \<noteq> redirectionTarget r \<and> \<not> isEmpty (redirectionTarget r)"
  using assms
  by (auto simp: slotFinished_def setReply_def answer_def deleted_def Let_def
      split: if_splits option.splits)

lemma followed_length:
  "0 \<le> redirectCount job \<Longrightarrow>
     int (length (followed M job rs)) \<le> max 0 (int M - redirectCount job - 1)"
proof (induction rs arbitrary: job)
  case Nil
  then show ?case by simp
next
  case (Cons r rs)
  show ?case
  proof (cases "slotFinished M (setReply job r)")
    case None
    then show ?thesis by simp
  next
    case (Some job1)
    show ?thesis
    proof (cases "deleted job1")
      case True
      with Some show ?thesis by simp
    next
      case False
      note f = slotFinished_follows [OF Some False]
      with Cons.prems have "0 \<le> redirectCount job1" by simp
      from Cons.IH [OF this] f Some False show ?thesis by simp
    qed
  qed
qed

lemma followed_guards:
  "r \<in> set (followed M job rs) \<Longrightarrow>
     \<not> (scheme (request_url r) = ''https'' \<and> scheme (redirectionTarget r) = ''http'')
     \<and> request_url r \<noteq> redirectionTarget r"
proof (induction rs arbitrary: job)
  case Nil
  then show ?case by simp
next
  case (Cons r' rs)
  show ?case
  proof (cases "slotFinished M (setReply job r')")
    case None
    with Cons.prems show ?thesis by simp
  next
    case (Some job1)
    show ?thesis
    proof (cases "deleted job1")
      case True
      with Some Cons.prems show ?thesis by simp
    next
      case False
      from Cons.prems Some False have "r = r' \<or> r \<in> set (followed M job1 rs)" by simp
      then show ?thesis
        using slotFinished_follows [OF Some False] Cons.IH by blast
    qed
  qed
qed

text \<open>
  C8. A new job is given any replies \<open>rs\<close>, each until it deletes itself. It follows
  the redirect of at most \<open>MAX_REDIRECTS\<close> of them; it follows none from an https URL to
  an http URL and none whose target is the URL that was requested.
\<close>

theorem redirects_bounded_and_guarded:
  "length (followed MAX_REDIRECTS (new_CheckServerJob followRedirect) rs) \<le> MAX_REDIRECTS
   \<and> (\<forall>r \<in> set (followed MAX_REDIRECTS (new_CheckServerJob followRedirect) rs).
        \<not> (scheme (request_url r) = ''https'' \<and> scheme (redirectionTarget r) = ''http'')
        \<and> request_url r \<noteq> redirectionTarget r)"
proof -
  have "0 \<le> redirectCount (new_CheckServerJob followRedirect)"
    by (simp add: new_CheckServerJob_def)
  from followed_length [OF this, of MAX_REDIRECTS rs]
  have "length (followed MAX_REDIRECTS (new_CheckServerJob followRedirect) rs) \<le> MAX_REDIRECTS"
    by (simp add: new_CheckServerJob_def)
  then show ?thesis
    using followed_guards by blast
qed

theorem redirects_bounded_and_guarded_witness:
  "followed 3 (new_CheckServerJob True) replies0 = take 2 replies0
   \<and> length (followed 3 (new_CheckServerJob True) replies0) \<le> 3
   \<and> followed 1 (new_CheckServerJob True) replies0 = []
   \<and> followed 3 (new_CheckServerJob True) (tl replies0 @ [hd replies0]) = [replies0 ! 1, replies0 ! 2]
   \<and> followed 9 (new_CheckServerJob True)
        [redirect_to ''https'' ''b'' ''http'' ''b'', hd replies0] = []"
  using redirects_bounded_and_guarded [of 3 True replies0]
  by (simp add: replies0_def redirect_to_def new_CheckServerJob_def slotFinished_def setReply_def
      answer_def deleted_def isEmpty_def Let_def)

subsection \<open>The job tree\<close>



























lemma list_all_update:
  "list_all P xs \<Longrightarrow> P v \<Longrightarrow> list_all P (xs[k := v])"
  using set_update_subset_insert [of xs k v] by (auto simp: list_all_iff)

lemma none_removes_nothing:
  "\<not> removes_directory (it\<lparr>instruction := CSYNC_INSTRUCTION_NONE\<rparr>)"
  by (simp add: removes_directory_def)


lemma keep_etags_quiet:
  "list_all (\<lambda>it. \<not> removes_directory it) (items st) \<Longrightarrow>
     list_all (\<lambda>it. \<not> removes_directory it) (items (keep_etags ds st))"
  "length (items (keep_etags ds st)) = length (items st)"
  by (induction ds st rule: keep_etags.induct)
     (simp_all add: list_all_update none_removes_nothing split: option.splits)




text \<open>When the loop body ends at its first statement.\<close>

lemma removal_check_skips:
  assumes "removal_check st i = Some (st1, b)"
  shows "b \<longleftrightarrow> removedDirectory st \<noteq> []
        \<and> startsWith (item_file (items st ! i)) (removedDirectory st)
        \<and> (instruction (items st ! i) = CSYNC_INSTRUCTION_REMOVE
            \<or> isDirectory (items st ! i)
              \<and> (instruction (items st ! i) = CSYNC_INSTRUCTION_NEW
                  \<or> instruction (items st ! i) = CSYNC_INSTRUCTION_TYPE_CHANGE)
            \<or> instruction (items st ! i) = CSYNC_INSTRUCTION_IGNORE)"
  using assms
  by (auto simp: removal_check_def Let_def split: if_splits list.splits)






end
